theory Spec2Isabelle
  imports Main "HOL-Library.Multiset"
begin

section \<open>Data model\<close>

text \<open>
  The views of \<^verbatim>\<open>wger/nutrition/views/ingredient.py\<close> work on the \<^verbatim>\<open>Ingredient\<close> model,
  the Django cache, the request and its user. The model class, the cache key mapper and the
  language helpers are declared in other modules; the views only name their fields and
  methods.
\<close>

text \<open>
  Modelled from the spec: the status constants \<^verbatim>\<open>Ingredient.STATUS_PENDING\<close>,
  \<^verbatim>\<open>STATUS_ACCEPTED\<close> and \<^verbatim>\<open>STATUS_DECLINED\<close> are declared with the model class, in
  \<^verbatim>\<open>wger.nutrition.models\<close>, outside the views module. Section 3 of the spec: a lifecycle status field with values
  pending, accepted, declined, exactly one of them at all times.
\<close>

datatype submission_status = STATUS_PENDING | STATUS_ACCEPTED | STATUS_DECLINED

text \<open>
  Modelled from the spec: the \<^verbatim>\<open>Ingredient\<close> model class is declared in
  \<^verbatim>\<open>wger.nutrition.models\<close>, outside the views module. The
  record has the fields the views name (\<^verbatim>\<open>id\<close>, here \<open>pk\<close>, Django's alias for the primary
  key; \<^verbatim>\<open>name\<close>, \<^verbatim>\<open>status\<close>, \<^verbatim>\<open>creation_date\<close>, \<^verbatim>\<open>language\<close> and the nutritional
  values listed by the delete view). The creation date is a point on a linear time axis
  and the nutritional values are opaque quantities, both written as integers.
\<close>

record Ingredient =
  pk :: int
  name :: string
  status :: submission_status
  creation_date :: int
  language :: int
  energy :: int
  protein :: int
  carbohydrates :: int
  carbohydrates_sugar :: int
  fat :: int
  fat_saturated :: int
  fibres :: int
  sodium :: int

text \<open>
  The user of a request: Django's \<^verbatim>\<open>AnonymousUser\<close>, or a stored user with its flags, the
  permission names its backends grant, and the related profile row when there is one.
\<close>

record userprofile =
  is_temporary :: bool

datatype auth_user =
    AnonymousUser
  | User (username: string) (is_active: bool) (is_superuser: bool)
      (user_permissions: "string list") (profile: "userprofile option")

record request =
  user :: auth_user
  path :: string

text \<open>Exceptions that leave a view, as values.\<close>

datatype error = Http404 | AttributeError | RelatedObjectDoesNotExist

datatype url = IngredientUrl int | LoginUrl string

record unit_chooser_data =
  ingredient_id :: int
  amount :: int
  unit :: "int option"

record template_data =
  ingredient :: Ingredient
  form :: unit_chooser_data
  show_shariff :: bool

text \<open>
  Responses. \<open>Rendered\<close> stands for \<^verbatim>\<open>render(request, template_name, context)\<close>: template
  rendering is the framework's, so the response is kept as its three arguments.
\<close>

datatype response =
    HttpResponseRedirect url
  | HttpResponseForbidden
  | Rendered request string template_data

text \<open>
  Modelled from the spec: \<^verbatim>\<open>cache_mapper.get_ingredient_key\<close> is defined in
  \<^verbatim>\<open>wger.utils.cache\<close>, outside the views module. Section 3 of the spec: a cache entry is keyed by the ingredient
  identifier. The view calls it once with an integer and once with the record, so the
  argument is a sum; the key is the identifier in both cases.
\<close>

datatype cache_key = IngredientKey int

fun get_pk :: "int + Ingredient \<Rightarrow> int" where
  "get_pk (Inl n) = n"
| "get_pk (Inr obj) = pk obj"

definition get_ingredient_key :: "int + Ingredient \<Rightarrow> cache_key" where
  "get_ingredient_key param = IngredientKey (get_pk param)"

section \<open>The collaborators: storage, cache, mail, messages\<close>

text \<open>
  The world a view runs in: the rows of the ingredient table, the cache, the log of the
  storage operations executed so far (what Django keeps in \<^verbatim>\<open>connection.queries\<close>), the
  calls made to the notification sender, and the messages queued for the caller.
\<close>

datatype query = SelectByPk int | UpdateRow int | InsertRow int

record world =
  db :: "Ingredient list"
  cache :: "cache_key \<rightharpoonup> Ingredient"
  queries :: "query list"
  outbox :: "(Ingredient \<times> request) list"
  messages :: "string list"

text \<open>\<^verbatim>\<open>Ingredient.objects.get(pk=...)\<close>: the row with that primary key, if any.\<close>

definition objects_get :: "int \<Rightarrow> Ingredient list \<Rightarrow> Ingredient option" where
  "objects_get i rows = find (\<lambda>r. pk r = i) rows"

text \<open>
  \<^verbatim>\<open>get_object_or_404(Ingredient, pk=...)\<close>: one storage read; \<^verbatim>\<open>Http404\<close> when the
  manager's \<^verbatim>\<open>get\<close> raises \<^verbatim>\<open>DoesNotExist\<close>.
\<close>

definition get_object_or_404 :: "int \<Rightarrow> world \<Rightarrow> (error + Ingredient) \<times> world" where
  "get_object_or_404 i st =
     (let st1 = st\<lparr>queries := queries st @ [SelectByPk i]\<rparr>
      in case objects_get i (db st) of
           None \<Rightarrow> (Inl Http404, st1)
         | Some obj \<Rightarrow> (Inr obj, st1))"

text \<open>
  Modelled from the spec: \<^verbatim>\<open>Ingredient.save\<close> is the model's method, defined outside
  the views module. Section 6 of the spec: persistent storage supports save/update of a record.
  As in Django, the row with the instance's primary key is overwritten with all the
  instance's fields, and a row is inserted when there is none.
\<close>

definition save :: "Ingredient \<Rightarrow> world \<Rightarrow> world" where
  "save obj st =
     (if \<exists>r \<in> set (db st). pk r = pk obj
      then st\<lparr>db := map (\<lambda>r. if pk r = pk obj then obj else r) (db st),
              queries := queries st @ [UpdateRow (pk obj)]\<rparr>
      else st\<lparr>db := db st @ [obj],
              queries := queries st @ [InsertRow (pk obj)]\<rparr>)"

text \<open>
  Modelled from the spec: \<^verbatim>\<open>Ingredient.send_email\<close> is the model's method, defined
  outside the views module. Section 6 of the spec: the notification sender accepts a record and a
  request context. Each call is recorded with both arguments.
\<close>

definition send_email :: "Ingredient \<Rightarrow> request \<Rightarrow> world \<Rightarrow> world" where
  "send_email obj req st = st\<lparr>outbox := outbox st @ [(obj, req)]\<rparr>"

text \<open>
  Modelled from the spec: \<^verbatim>\<open>Ingredient.get_absolute_url\<close> is the model's method,
  defined outside the views module. Section 4.2 of the spec: the record's canonical location.
\<close>

definition get_absolute_url :: "Ingredient \<Rightarrow> url" where
  "get_absolute_url obj = IngredientUrl (pk obj)"

text \<open>\<^verbatim>\<open>messages.success(request, text)\<close>.\<close>

definition messages_success :: "request \<Rightarrow> string \<Rightarrow> world \<Rightarrow> world" where
  "messages_success req msg st = st\<lparr>messages := messages st @ [msg]\<rparr>"

text \<open>\<^verbatim>\<open>cache.get(key)\<close> and \<^verbatim>\<open>cache.set(key, value)\<close>.\<close>

definition cache_get :: "cache_key \<Rightarrow> world \<Rightarrow> Ingredient option" where
  "cache_get k st = cache st k"

definition cache_set :: "cache_key \<Rightarrow> Ingredient \<Rightarrow> world \<Rightarrow> world" where
  "cache_set k v st = st\<lparr>cache := (cache st)(k \<mapsto> v)\<rparr>"

section \<open>Access control\<close>

text \<open>
  \<^verbatim>\<open>user.has_perm\<close>: an active superuser holds every permission, an inactive or anonymous
  user none, any other user those its backends grant.
\<close>

fun has_perm :: "auth_user \<Rightarrow> string \<Rightarrow> bool" where
  "has_perm AnonymousUser perm = False"
| "has_perm (User _ active super perms _) perm =
     (active \<and> (super \<or> perm \<in> set perms))"

text \<open>
  The decorator \<^verbatim>\<open>@permission_required(perm)\<close>: without the permission the view does not
  run and the caller is redirected to the login page.
\<close>

definition permission_required ::
  "string \<Rightarrow> (request \<Rightarrow> int \<Rightarrow> world \<Rightarrow> (error + response) \<times> world) \<Rightarrow>
   request \<Rightarrow> int \<Rightarrow> world \<Rightarrow> (error + response) \<times> world" where
  "permission_required perm view_func req i st =
     (if has_perm (user req) perm then view_func req i st
      else (Inr (HttpResponseRedirect (LoginUrl (path req))), st))"

text \<open>
  \<^verbatim>\<open>request.user.userprofile\<close>: the anonymous user has no such attribute, and a user
  without a profile row raises on access.
\<close>

fun user_userprofile :: "auth_user \<Rightarrow> error + userprofile" where
  "user_userprofile AnonymousUser = Inl AttributeError"
| "user_userprofile (User _ _ _ _ None) = Inl RelatedObjectDoesNotExist"
| "user_userprofile (User _ _ _ _ (Some p)) = Inr p"

section \<open>The views\<close>

subsection \<open>Ingredient list\<close>

text \<open>
  Modelled from the spec: the manager method \<^verbatim>\<open>Ingredient.objects.accepted()\<close> is
  defined outside the views module. Section 3 of the spec gives the status field its
  three values; the method keeps the records whose status is accepted.
\<close>

definition accepted :: "Ingredient list \<Rightarrow> Ingredient list" where
  "accepted rows = filter (\<lambda>r. status r = STATUS_ACCEPTED) rows"

text \<open>
  \<^verbatim>\<open>.only('id', 'name')\<close> defers the loading of the other columns; the instances of the
  queryset are the same rows.
\<close>

definition only_id_name :: "Ingredient list \<Rightarrow> Ingredient list" where
  "only_id_name rows = rows"

text \<open>
  \<^verbatim>\<open>IngredientListView.get_queryset\<close>. The helper \<^verbatim>\<open>load_ingredient_languages\<close>
  (module \<^verbatim>\<open>wger.utils.language\<close>) is a parameter.
\<close>

definition IngredientListView_get_queryset ::
  "(request \<Rightarrow> int list) \<Rightarrow> request \<Rightarrow> Ingredient list \<Rightarrow> Ingredient list" where
  "IngredientListView_get_queryset load_ingredient_languages req rows =
     (let languages = load_ingredient_languages req
      in only_id_name (filter (\<lambda>r. language r \<in> set languages) (accepted rows)))"

subsection \<open>Single ingredient\<close>

text \<open>
  \<^verbatim>\<open>view(request, id, slug=None)\<close>. The identifier arrives as an integer, so \<^verbatim>\<open>int(id)\<close>
  is the identifier itself. A cached model instance is truthy, so \<^verbatim>\<open>not ingredient\<close> holds
  exactly when the cache has no entry. The first part computes the ingredient (from the
  cache, or from storage with the cache written); the second builds the template data
  and renders.
\<close>

definition view :: "request \<Rightarrow> int \<Rightarrow> world \<Rightarrow> (error + response) \<times> world" where
  "view req i st =
     (let (found, st') =
            (case cache_get (get_ingredient_key (Inl i)) st of
               Some cached \<Rightarrow> (Inr cached, st)
             | None \<Rightarrow>
                 (case get_object_or_404 i st of
                    (Inl e, st1) \<Rightarrow> (Inl e, st1)
                  | (Inr obj, st1) \<Rightarrow>
                      (Inr obj, cache_set (get_ingredient_key (Inr obj)) obj st1)))
      in case found of
           Inl e \<Rightarrow> (Inl e, st')
         | Inr obj \<Rightarrow>
             (Inr (Rendered req ''ingredient/view.html''
                \<lparr>ingredient = obj,
                 form = \<lparr>ingredient_id = pk obj, amount = 100, unit = None\<rparr>,
                 show_shariff = True\<rparr>), st'))"

subsection \<open>Creating an ingredient\<close>

text \<open>
  \<^verbatim>\<open>IngredientCreateView.dispatch\<close>. The inherited \<^verbatim>\<open>dispatch\<close> (form display, validation
  and saving) is the framework's and is a parameter.
\<close>

definition IngredientCreateView_dispatch ::
  "(request \<Rightarrow> world \<Rightarrow> (error + response) \<times> world) \<Rightarrow>
   request \<Rightarrow> world \<Rightarrow> (error + response) \<times> world" where
  "IngredientCreateView_dispatch super_dispatch req st =
     (case user_userprofile (user req) of
        Inl e \<Rightarrow> (Inl e, st)
      | Inr p \<Rightarrow>
          if is_temporary p then (Inr HttpResponseForbidden, st)
          else super_dispatch req st)"

subsection \<open>Moderation\<close>

text \<open>
  \<^verbatim>\<open>ORDER BY key DESC\<close>. The order of rows with equal keys is the database's choice; here
  they keep their table order.
\<close>

definition order_by_desc :: "('a \<Rightarrow> int) \<Rightarrow> 'a list \<Rightarrow> 'a list" where
  "order_by_desc key rows = sort_key (\<lambda>r. - key r) rows"

text \<open>\<^verbatim>\<open>PendingIngredientListView.get_queryset\<close>.\<close>

definition PendingIngredientListView_get_queryset :: "Ingredient list \<Rightarrow> Ingredient list" where
  "PendingIngredientListView_get_queryset rows =
     order_by_desc creation_date (filter (\<lambda>r. status r = STATUS_PENDING) rows)"

text \<open>
  The body of \<^verbatim>\<open>accept(request, pk)\<close>: load or fail, set the status on the instance, save,
  send the notification, queue the success message, redirect. \<open>accept\<close> is the body
  under its decorator.
\<close>

definition accept_view :: "request \<Rightarrow> int \<Rightarrow> world \<Rightarrow> (error + response) \<times> world" where
  "accept_view req i st =
     (case get_object_or_404 i st of
        (Inl e, st1) \<Rightarrow> (Inl e, st1)
      | (Inr obj, st1) \<Rightarrow>
          (let obj' = obj\<lparr>status := STATUS_ACCEPTED\<rparr>;
               st2 = save obj' st1;
               st3 = send_email obj' req st2;
               st4 = messages_success req
                 ''Ingredient was successfully added to the general database'' st3
           in (Inr (HttpResponseRedirect (get_absolute_url obj')), st4)))"

definition accept :: "request \<Rightarrow> int \<Rightarrow> world \<Rightarrow> (error + response) \<times> world" where
  "accept = permission_required ''nutrition.add_ingredient'' accept_view"

text \<open>
  The body of \<^verbatim>\<open>decline(request, pk)\<close>: as above with the declined status, and without
  the notification. \<open>decline\<close> is the body under its decorator.
\<close>

definition decline_view :: "request \<Rightarrow> int \<Rightarrow> world \<Rightarrow> (error + response) \<times> world" where
  "decline_view req i st =
     (case get_object_or_404 i st of
        (Inl e, st1) \<Rightarrow> (Inl e, st1)
      | (Inr obj, st1) \<Rightarrow>
          (let obj' = obj\<lparr>status := STATUS_DECLINED\<rparr>;
               st2 = save obj' st1;
               st3 = messages_success req
                 ''Ingredient was successfully marked as rejected'' st2
           in (Inr (HttpResponseRedirect (get_absolute_url obj')), st3)))"

definition decline :: "request \<Rightarrow> int \<Rightarrow> world \<Rightarrow> (error + response) \<times> world" where
  "decline = permission_required ''nutrition.add_ingredient'' decline_view"

section \<open>Example data\<close>

text \<open>
  A small table with a row in each status, a moderator, a demo user, and a stand-in for
  the inherited form handling that stores a submitted row. The concrete instances below
  are evaluated on them.
\<close>

definition apple :: Ingredient where
  "apple = \<lparr>pk = 1, name = ''Apple'', status = STATUS_PENDING, creation_date = 10,
     language = 2, energy = 52, protein = 0, carbohydrates = 14, carbohydrates_sugar = 10,
     fat = 0, fat_saturated = 0, fibres = 2, sodium = 0\<rparr>"

definition bread :: Ingredient where
  "bread = \<lparr>pk = 2, name = ''Bread'', status = STATUS_ACCEPTED, creation_date = 20,
     language = 2, energy = 265, protein = 9, carbohydrates = 49, carbohydrates_sugar = 5,
     fat = 3, fat_saturated = 1, fibres = 3, sodium = 1\<rparr>"

definition cheese :: Ingredient where
  "cheese = \<lparr>pk = 3, name = ''Cheese'', status = STATUS_PENDING, creation_date = 30,
     language = 1, energy = 402, protein = 25, carbohydrates = 1, carbohydrates_sugar = 1,
     fat = 33, fat_saturated = 21, fibres = 0, sodium = 1\<rparr>"

definition dates :: Ingredient where
  "dates = \<lparr>pk = 4, name = ''Dates'', status = STATUS_DECLINED, creation_date = 40,
     language = 2, energy = 282, protein = 2, carbohydrates = 75, carbohydrates_sugar = 63,
     fat = 0, fat_saturated = 0, fibres = 8, sodium = 0\<rparr>"

definition moderator_request :: request where
  "moderator_request =
     \<lparr>user = User ''moderator'' True False
        [''nutrition.add_ingredient'', ''nutrition.change_ingredient'']
        (Some \<lparr>is_temporary = False\<rparr>),
      path = ''/nutrition/ingredient/pending''\<rparr>"

definition guest_request :: request where
  "guest_request =
     \<lparr>user = User ''guest'' True False [] (Some \<lparr>is_temporary = True\<rparr>),
      path = ''/nutrition/ingredient/add''\<rparr>"

definition pantry :: world where
  "pantry = \<lparr>db = [apple, bread, cheese, dates], cache = Map.empty, queries = [],
     outbox = [], messages = []\<rparr>"

definition pantry_cached :: world where
  "pantry_cached = pantry\<lparr>cache := [IngredientKey 2 \<mapsto> bread]\<rparr>"

definition submitting_dispatch :: "request \<Rightarrow> world \<Rightarrow> (error + response) \<times> world" where
  "submitting_dispatch req st =
     (let obj = cheese\<lparr>pk := 5\<rparr>
      in (Inr (HttpResponseRedirect (get_absolute_url obj)), save obj st))"

section \<open>Storage lemmas\<close>

lemma objects_get_pk: "objects_get i rows = Some r \<Longrightarrow> pk r = i"
  by (auto simp: objects_get_def find_Some_iff)

lemma objects_get_mem: "objects_get i rows = Some r \<Longrightarrow> r \<in> set rows"
  by (auto simp: objects_get_def find_Some_iff)

lemma objects_get_None: "objects_get i rows = None \<longleftrightarrow> (\<forall>r \<in> set rows. pk r \<noteq> i)"
  by (auto simp: objects_get_def find_None_iff)

lemma objects_get_overwrite:
  "objects_get i rows = Some r \<Longrightarrow> pk obj = i \<Longrightarrow>
   objects_get i (map (\<lambda>x. if pk x = i then obj else x) rows) = Some obj"
  unfolding objects_get_def by (induction rows) (auto split: if_splits)

lemma overwrite_keeps_pks:
  "pk obj = i \<Longrightarrow> map pk (map (\<lambda>x. if pk x = i then obj else x) rows) = map pk rows"
  by (induction rows) auto

lemma overwrite_keeps_others:
  "filter (\<lambda>x. pk x \<noteq> i) (map (\<lambda>x. if pk x = i then obj else x) rows)
     = filter (\<lambda>x. pk x \<noteq> i) rows"
  if "pk obj = i"
  using that by (induction rows) auto

lemma save_existing:
  assumes "objects_get i (db st) = Some r" and "pk obj = i"
  shows "save obj st =
     st\<lparr>db := map (\<lambda>x. if pk x = i then obj else x) (db st),
        queries := queries st @ [UpdateRow i]\<rparr>"
proof -
  have "\<exists>x \<in> set (db st). pk x = pk obj"
    using assms objects_get_pk objects_get_mem by blast
  then show ?thesis
    using assms(2) by (simp add: save_def)
qed

lemma accept_view_found:
  assumes "objects_get i (db st) = Some r"
  shows "accept_view req i st =
     (Inr (HttpResponseRedirect (IngredientUrl i)),
      st\<lparr>db := map (\<lambda>x. if pk x = i then r\<lparr>status := STATUS_ACCEPTED\<rparr> else x) (db st),
         queries := queries st @ [SelectByPk i, UpdateRow i],
         outbox := outbox st @ [(r\<lparr>status := STATUS_ACCEPTED\<rparr>, req)],
         messages := messages st @
           [''Ingredient was successfully added to the general database'']\<rparr>)"
proof -
  have p: "pk r = i" using assms by (rule objects_get_pk)
  have g: "get_object_or_404 i st = (Inr r, st\<lparr>queries := queries st @ [SelectByPk i]\<rparr>)"
    using assms by (simp add: get_object_or_404_def)
  have s: "save (r\<lparr>status := STATUS_ACCEPTED\<rparr>) (st\<lparr>queries := queries st @ [SelectByPk i]\<rparr>)
      = st\<lparr>db := map (\<lambda>x. if pk x = i then r\<lparr>status := STATUS_ACCEPTED\<rparr> else x) (db st),
           queries := queries st @ [SelectByPk i, UpdateRow i]\<rparr>"
    using assms p by (simp add: save_existing [where r = r])
  show ?thesis
    by (simp add: accept_view_def Let_def g s send_email_def messages_success_def get_absolute_url_def p)
qed

lemma decline_view_found:
  assumes "objects_get i (db st) = Some r"
  shows "decline_view req i st =
     (Inr (HttpResponseRedirect (IngredientUrl i)),
      st\<lparr>db := map (\<lambda>x. if pk x = i then r\<lparr>status := STATUS_DECLINED\<rparr> else x) (db st),
         queries := queries st @ [SelectByPk i, UpdateRow i],
         messages := messages st @
           [''Ingredient was successfully marked as rejected'']\<rparr>)"
proof -
  have p: "pk r = i" using assms by (rule objects_get_pk)
  have g: "get_object_or_404 i st = (Inr r, st\<lparr>queries := queries st @ [SelectByPk i]\<rparr>)"
    using assms by (simp add: get_object_or_404_def)
  have s: "save (r\<lparr>status := STATUS_DECLINED\<rparr>) (st\<lparr>queries := queries st @ [SelectByPk i]\<rparr>)
      = st\<lparr>db := map (\<lambda>x. if pk x = i then r\<lparr>status := STATUS_DECLINED\<rparr> else x) (db st),
           queries := queries st @ [SelectByPk i, UpdateRow i]\<rparr>"
    using assms p by (simp add: save_existing [where r = r])
  show ?thesis
    by (simp add: decline_view_def Let_def g s messages_success_def get_absolute_url_def p)
qed

lemma accept_view_missing:
  "objects_get i (db st) = None \<Longrightarrow>
   accept_view req i st = (Inl Http404, st\<lparr>queries := queries st @ [SelectByPk i]\<rparr>)"
  by (simp add: accept_view_def get_object_or_404_def)

lemma decline_view_missing:
  "objects_get i (db st) = None \<Longrightarrow>
   decline_view req i st = (Inl Http404, st\<lparr>queries := queries st @ [SelectByPk i]\<rparr>)"
  by (simp add: decline_view_def get_object_or_404_def)

lemma gate_closed:
  "\<not> has_perm (user req) perm \<Longrightarrow>
   permission_required perm view_func req i st
     = (Inr (HttpResponseRedirect (LoginUrl (path req))), st)"
  by (simp add: permission_required_def)

lemma gate_open:
  "has_perm (user req) perm \<Longrightarrow> permission_required perm view_func req i st = view_func req i st"
  by (simp add: permission_required_def)

lemma save_keeps_pks_distinct:
  assumes "distinct (map pk (db st))"
  shows "distinct (map pk (db (save obj st)))"
proof (cases "\<exists>r \<in> set (db st). pk r = pk obj")
  case True
  have "map pk (map (\<lambda>r. if pk r = pk obj then obj else r) (db st)) = map pk (db st)"
    by (rule overwrite_keeps_pks) (rule refl)
  moreover have "db (save obj st) = map (\<lambda>r. if pk r = pk obj then obj else r) (db st)"
    using True by (simp add: save_def)
  ultimately show ?thesis
    using assms by (simp del: map_map)
next
  case False
  then show ?thesis
    using assms by (auto simp: save_def)
qed

section \<open>The pending list\<close>

lemma order_by_desc_mset: "mset (order_by_desc key rows) = mset rows"
  by (simp add: order_by_desc_def)

lemma order_by_desc_sorted:
  "sorted_wrt (\<lambda>a b. key b \<le> key a) (order_by_desc key rows)"
proof -
  have "sorted (map (\<lambda>r. - key r) (sort_key (\<lambda>r. - key r) rows))"
    by (rule sorted_sort_key)
  then show ?thesis
    by (simp add: order_by_desc_def sorted_map)
qed

text \<open>
  Claim C5. For every content of the ingredient table, the queryset of the pending list
  holds exactly the rows whose status is pending (each as often as the table has it),
  the creation dates never increase along the list (most recent first), and no row of
  the list has a status other than pending: accepted and declined rows are left out.
\<close>

theorem pending_list_exact_and_descending:
  "mset (PendingIngredientListView_get_queryset rows)
     = mset (filter (\<lambda>r. status r = STATUS_PENDING) rows)
   \<and> sorted_wrt (\<lambda>a b. creation_date b \<le> creation_date a)
       (PendingIngredientListView_get_queryset rows)
   \<and> filter (\<lambda>r. status r = STATUS_ACCEPTED \<or> status r = STATUS_DECLINED)
       (PendingIngredientListView_get_queryset rows) = []"
proof -
  let ?q = "PendingIngredientListView_get_queryset rows"
  have m: "mset ?q = mset (filter (\<lambda>r. status r = STATUS_PENDING) rows)"
    by (simp add: PendingIngredientListView_get_queryset_def order_by_desc_mset)
  have s: "sorted_wrt (\<lambda>a b. creation_date b \<le> creation_date a) ?q"
    by (simp add: PendingIngredientListView_get_queryset_def order_by_desc_sorted)
  have "set ?q = set (filter (\<lambda>r. status r = STATUS_PENDING) rows)"
    using m by (rule mset_eq_setD)
  then have "\<forall>r \<in> set ?q. status r = STATUS_PENDING"
    by simp
  then have e: "filter (\<lambda>r. status r = STATUS_ACCEPTED \<or> status r = STATUS_DECLINED) ?q = []"
    by (auto simp: filter_empty_conv)
  from m s e show ?thesis by blast
qed

text \<open>
  The example of the spec: of a pending row, a later accepted row and a still later
  pending row, the list holds the two pending rows, the later one first. The declined
  row of the example table is left out as well.
\<close>

lemma pending_list_example:
  "PendingIngredientListView_get_queryset [apple, bread, cheese, dates] = [cheese, apple]"
  by (simp add: PendingIngredientListView_get_queryset_def order_by_desc_def
      apple_def bread_def cheese_def dates_def)

section \<open>The public list\<close>

text \<open>
  Claim C9. For every content of the ingredient table, every row of the queryset of the
  public ingredient list is a row of the table whose status is accepted and whose
  language is one of the requester's languages; the list holds no pending and no
  declined row.
\<close>

theorem public_list_only_accepted:
  "(\<forall>r \<in> set (IngredientListView_get_queryset load_ingredient_languages req rows).
       status r = STATUS_ACCEPTED
     \<and> language r \<in> set (load_ingredient_languages req)
     \<and> r \<in> set rows)
   \<and> filter (\<lambda>r. status r = STATUS_PENDING \<or> status r = STATUS_DECLINED)
       (IngredientListView_get_queryset load_ingredient_languages req rows) = []"
  by (auto simp: IngredientListView_get_queryset_def only_id_name_def accepted_def
      filter_empty_conv)

theorem public_list_only_accepted_witness:
  "IngredientListView_get_queryset (\<lambda>_. [2]) guest_request [apple, bread, cheese, dates]
     = [bread]
   \<and> status bread = STATUS_ACCEPTED
   \<and> language bread \<in> set [2]"
proof -
  have q: "IngredientListView_get_queryset (\<lambda>_. [2]) guest_request
      [apple, bread, cheese, dates] = [bread]"
    by (simp add: IngredientListView_get_queryset_def only_id_name_def accepted_def
        apple_def bread_def cheese_def dates_def)
  from public_list_only_accepted
    [of "\<lambda>_. [2]" guest_request "[apple, bread, cheese, dates]"] q
  show ?thesis
    by simp
qed

section \<open>The cached lookup\<close>

lemma view_hit:
  assumes "cache st (get_ingredient_key (Inl i)) = Some c"
  shows "view req i st =
     (Inr (Rendered req ''ingredient/view.html''
        \<lparr>ingredient = c,
         form = \<lparr>ingredient_id = pk c, amount = 100, unit = None\<rparr>,
         show_shariff = True\<rparr>), st)"
  using assms by (simp add: view_def cache_get_def)

lemma view_miss_absent:
  assumes "cache st (get_ingredient_key (Inl i)) = None" and "objects_get i (db st) = None"
  shows "view req i st = (Inl Http404, st\<lparr>queries := queries st @ [SelectByPk i]\<rparr>)"
  using assms by (simp add: view_def cache_get_def get_object_or_404_def)

lemma view_miss_found:
  assumes "cache st (get_ingredient_key (Inl i)) = None" and "objects_get i (db st) = Some r"
  shows "view req i st =
     (Inr (Rendered req ''ingredient/view.html''
        \<lparr>ingredient = r,
         form = \<lparr>ingredient_id = pk r, amount = 100, unit = None\<rparr>,
         show_shariff = True\<rparr>),
      st\<lparr>queries := queries st @ [SelectByPk i],
         cache := (cache st)(get_ingredient_key (Inr r) \<mapsto> r)\<rparr>)"
  using assms by (simp add: view_def cache_get_def get_object_or_404_def cache_set_def)

text \<open>
  Claim C3. The view reads the cache first, under the key of the identifier. On a hit it
  renders the cached snapshot and leaves the world as it is: no storage operation is
  logged and the cache is not written. On a miss it reads the row from storage: when
  there is none it fails with \<open>Http404\<close> and the cache stays as it was; when there is
  one, the row is stored in the cache under the key derived from the row itself and is
  rendered. So the cache is written on a miss only.
\<close>

theorem view_reads_cache_first:
  "(cache st (get_ingredient_key (Inl i)) = Some c \<longrightarrow>
      view req i st =
        (Inr (Rendered req ''ingredient/view.html''
           \<lparr>ingredient = c,
            form = \<lparr>ingredient_id = pk c, amount = 100, unit = None\<rparr>,
            show_shariff = True\<rparr>), st))
   \<and> (cache st (get_ingredient_key (Inl i)) = None \<and> objects_get i (db st) = None \<longrightarrow>
      view req i st = (Inl Http404, st\<lparr>queries := queries st @ [SelectByPk i]\<rparr>))
   \<and> (cache st (get_ingredient_key (Inl i)) = None \<and> objects_get i (db st) = Some r \<longrightarrow>
      view req i st =
        (Inr (Rendered req ''ingredient/view.html''
           \<lparr>ingredient = r,
            form = \<lparr>ingredient_id = pk r, amount = 100, unit = None\<rparr>,
            show_shariff = True\<rparr>),
         st\<lparr>queries := queries st @ [SelectByPk i],
            cache := (cache st)(get_ingredient_key (Inr r) \<mapsto> r)\<rparr>))"
  using view_hit view_miss_absent view_miss_found by blast

theorem view_reads_cache_first_witness:
  "cache pantry_cached (get_ingredient_key (Inl 2)) = Some bread
   \<and> view moderator_request 2 pantry_cached =
       (Inr (Rendered moderator_request ''ingredient/view.html''
          \<lparr>ingredient = bread,
           form = \<lparr>ingredient_id = pk bread, amount = 100, unit = None\<rparr>,
           show_shariff = True\<rparr>), pantry_cached)
   \<and> cache pantry (get_ingredient_key (Inl 9)) = None \<and> objects_get 9 (db pantry) = None
   \<and> view moderator_request 9 pantry
       = (Inl Http404, pantry\<lparr>queries := queries pantry @ [SelectByPk 9]\<rparr>)
   \<and> cache pantry (get_ingredient_key (Inl 3)) = None \<and> objects_get 3 (db pantry) = Some cheese
   \<and> view moderator_request 3 pantry =
       (Inr (Rendered moderator_request ''ingredient/view.html''
          \<lparr>ingredient = cheese,
           form = \<lparr>ingredient_id = pk cheese, amount = 100, unit = None\<rparr>,
           show_shariff = True\<rparr>),
        pantry\<lparr>queries := queries pantry @ [SelectByPk 3],
           cache := (cache pantry)(get_ingredient_key (Inr cheese) \<mapsto> cheese)\<rparr>)"
proof -
  have hit: "cache pantry_cached (get_ingredient_key (Inl 2)) = Some bread"
    by (simp add: pantry_cached_def get_ingredient_key_def)
  have miss9: "cache pantry (get_ingredient_key (Inl 9)) = None"
    and miss3: "cache pantry (get_ingredient_key (Inl 3)) = None"
    by (simp_all add: pantry_def)
  have absent: "objects_get 9 (db pantry) = None"
    by (simp add: objects_get_def pantry_def apple_def bread_def cheese_def dates_def)
  have found: "objects_get 3 (db pantry) = Some cheese"
    by (simp add: objects_get_def pantry_def apple_def bread_def cheese_def)
  from view_reads_cache_first [of pantry_cached 2 bread moderator_request]
    view_reads_cache_first [of pantry 9 bread moderator_request]
    view_reads_cache_first [of pantry 3 bread moderator_request cheese]
    hit miss9 miss3 absent found
  show ?thesis by blast
qed

text \<open>
  Claim C4. When the identifier resolves to a row, the first lookup succeeds, and a
  second lookup, in any later world whose cache entry for the identifier is still the
  one the first lookup left (no invalidation, no expiry), returns the very same
  response and changes nothing: in particular the log of storage operations does not
  grow, so storage is not read a second time.
\<close>

theorem view_second_lookup_hits_cache:
  assumes "objects_get i (db st) = Some r"
    and "view req i st = (res, st1)"
    and "cache st2 (get_ingredient_key (Inl i)) = cache st1 (get_ingredient_key (Inl i))"
  shows "(\<exists>resp. res = Inr resp)
    \<and> view req i st2 = (res, st2)
    \<and> queries (snd (view req i st2)) = queries st2"
proof (cases "cache st (get_ingredient_key (Inl i))")
  case None
  have k: "get_ingredient_key (Inr r) = get_ingredient_key (Inl i)"
    using assms(1) by (simp add: get_ingredient_key_def objects_get_pk)
  from view_miss_found [OF None assms(1), of req] assms(2)
  have res: "res = Inr (Rendered req ''ingredient/view.html''
        \<lparr>ingredient = r,
         form = \<lparr>ingredient_id = pk r, amount = 100, unit = None\<rparr>,
         show_shariff = True\<rparr>)"
    and st1: "st1 = st\<lparr>queries := queries st @ [SelectByPk i],
         cache := (cache st)(get_ingredient_key (Inr r) \<mapsto> r)\<rparr>"
    by simp_all
  have "cache st2 (get_ingredient_key (Inl i)) = Some r"
    using assms(3) st1 k by simp
  then have "view req i st2 = (res, st2)"
    using res by (simp add: view_hit)
  then show ?thesis
    using res by simp
next
  case (Some c)
  from view_hit [OF Some, of req] assms(2)
  have res: "res = Inr (Rendered req ''ingredient/view.html''
        \<lparr>ingredient = c,
         form = \<lparr>ingredient_id = pk c, amount = 100, unit = None\<rparr>,
         show_shariff = True\<rparr>)"
    and st1: "st1 = st"
    by simp_all
  have "cache st2 (get_ingredient_key (Inl i)) = Some c"
    using assms(3) st1 Some by simp
  then have "view req i st2 = (res, st2)"
    using res by (simp add: view_hit)
  then show ?thesis
    using res by simp
qed

theorem view_second_lookup_hits_cache_witness:
  "objects_get 3 (db pantry) = Some cheese
   \<and> fst (view moderator_request 3 pantry) =
       Inr (Rendered moderator_request ''ingredient/view.html''
          \<lparr>ingredient = cheese,
           form = \<lparr>ingredient_id = 3, amount = 100, unit = None\<rparr>,
           show_shariff = True\<rparr>)
   \<and> queries (snd (view moderator_request 3 pantry)) = [SelectByPk 3]
   \<and> view moderator_request 3 (snd (view moderator_request 3 pantry))
       = (fst (view moderator_request 3 pantry), snd (view moderator_request 3 pantry))
   \<and> queries (snd (view moderator_request 3 (snd (view moderator_request 3 pantry))))
       = [SelectByPk 3]"
proof -
  have found: "objects_get 3 (db pantry) = Some cheese"
    by (simp add: objects_get_def pantry_def apple_def bread_def cheese_def)
  have miss: "cache pantry (get_ingredient_key (Inl 3)) = None"
    by (simp add: pantry_def)
  have first: "fst (view moderator_request 3 pantry) =
       Inr (Rendered moderator_request ''ingredient/view.html''
          \<lparr>ingredient = cheese,
           form = \<lparr>ingredient_id = 3, amount = 100, unit = None\<rparr>,
           show_shariff = True\<rparr>)"
    and q: "queries (snd (view moderator_request 3 pantry)) = [SelectByPk 3]"
  proof -
    have q0: "queries pantry = []"
      by (simp add: pantry_def)
    have p3: "pk cheese = 3"
      by (simp add: cheese_def)
    show "fst (view moderator_request 3 pantry) =
       Inr (Rendered moderator_request ''ingredient/view.html''
          \<lparr>ingredient = cheese,
           form = \<lparr>ingredient_id = 3, amount = 100, unit = None\<rparr>,
           show_shariff = True\<rparr>)"
      by (simp add: view_miss_found [OF miss found] p3)
    show "queries (snd (view moderator_request 3 pantry)) = [SelectByPk 3]"
      by (simp add: view_miss_found [OF miss found] q0)
  qed
  let ?st1 = "snd (view moderator_request 3 pantry)"
  have e: "view moderator_request 3 pantry = (fst (view moderator_request 3 pantry), ?st1)"
    by simp
  have k: "cache ?st1 (get_ingredient_key (Inl 3)) = cache ?st1 (get_ingredient_key (Inl 3))"
    by (rule refl)
  note second = view_second_lookup_hits_cache [OF found e k]
  from second have a: "view moderator_request 3 ?st1 = (fst (view moderator_request 3 pantry), ?st1)"
    and b: "queries (snd (view moderator_request 3 ?st1)) = queries ?st1"
    by blast+
  from b q have c: "queries (snd (view moderator_request 3 ?st1)) = [SelectByPk 3]"
    by (rule trans)
  from found first q a c show ?thesis
    by blast
qed

section \<open>Creating an ingredient\<close>

text \<open>
  Claim C10. For a request whose user has a profile marked temporary, the create view
  answers \<open>HttpResponseForbidden\<close> without calling the inherited dispatch, whatever that
  would do: the world, and with it the ingredient table, is unchanged.
\<close>

theorem temporary_user_cannot_create:
  assumes "user_userprofile (user req) = Inr p"
    and "is_temporary p"
  shows "IngredientCreateView_dispatch super_dispatch req st = (Inr HttpResponseForbidden, st)"
  using assms by (simp add: IngredientCreateView_dispatch_def)

theorem temporary_user_cannot_create_witness:
  "user_userprofile (user guest_request) = Inr \<lparr>is_temporary = True\<rparr>
   \<and> is_temporary \<lparr>is_temporary = True\<rparr>
   \<and> db (snd (submitting_dispatch guest_request pantry))
       = [apple, bread, cheese, dates, cheese\<lparr>pk := 5\<rparr>]
   \<and> IngredientCreateView_dispatch submitting_dispatch guest_request pantry
       = (Inr HttpResponseForbidden, pantry)
   \<and> db (snd (IngredientCreateView_dispatch submitting_dispatch guest_request pantry))
       = [apple, bread, cheese, dates]"
proof -
  have h1: "user_userprofile (user guest_request) = Inr \<lparr>is_temporary = True\<rparr>"
    by (simp add: guest_request_def)
  have h2: "is_temporary \<lparr>is_temporary = True\<rparr>"
    by simp
  have s: "db (snd (submitting_dispatch guest_request pantry))
       = [apple, bread, cheese, dates, cheese\<lparr>pk := 5\<rparr>]"
    by (simp add: submitting_dispatch_def save_def pantry_def Let_def
        apple_def bread_def cheese_def dates_def)
  have d: "db pantry = [apple, bread, cheese, dates]"
    by (simp add: pantry_def)
  from temporary_user_cannot_create [OF h1 h2, of submitting_dispatch pantry] h1 s d
  show ?thesis
    by simp
qed

lemma regular_user_reaches_form:
  assumes "user_userprofile (user req) = Inr p"
    and "\<not> is_temporary p"
  shows "IngredientCreateView_dispatch super_dispatch req st = super_dispatch req st"
  using assms by (simp add: IngredientCreateView_dispatch_def)

section \<open>Moderation\<close>

text \<open>
  Both handlers sit behind \<^verbatim>\<open>@permission_required('nutrition.add_ingredient')\<close> (section
  4.2 of the spec: the transitions require the caller to hold the add-ingredient
  privilege). A caller without it is sent to the login page and nothing changes.
\<close>

lemma moderation_gate_closed:
  assumes "\<not> has_perm (user req) ''nutrition.add_ingredient''"
  shows "accept req i st = (Inr (HttpResponseRedirect (LoginUrl (path req))), st)"
    and "decline req i st = (Inr (HttpResponseRedirect (LoginUrl (path req))), st)"
  using assms by (simp_all add: accept_def decline_def gate_closed)

text \<open>
  Claim C1. For a caller holding the add-ingredient privilege and a stored row whose
  status is pending, \<open>accept\<close> answers with a redirect and raises nothing; afterwards
  storage holds, under the same identifier, the row with status accepted and every other
  field as before (an update of that row, logged after the read); no row is added or
  removed and the rows with other identifiers are untouched; and the notification sender
  has been called exactly once more, with the accepted row and the request.
\<close>

theorem accept_pending:
  assumes "has_perm (user req) ''nutrition.add_ingredient''"
    and "objects_get i (db st) = Some r"
    and "status r = STATUS_PENDING"
  shows "case accept req i st of (res, st') \<Rightarrow>
      res = Inr (HttpResponseRedirect (get_absolute_url (r\<lparr>status := STATUS_ACCEPTED\<rparr>)))
    \<and> objects_get i (db st') = Some (r\<lparr>status := STATUS_ACCEPTED\<rparr>)
    \<and> map pk (db st') = map pk (db st)
    \<and> filter (\<lambda>x. pk x \<noteq> i) (db st') = filter (\<lambda>x. pk x \<noteq> i) (db st)
    \<and> queries st' = queries st @ [SelectByPk i, UpdateRow i]
    \<and> outbox st' = outbox st @ [(r\<lparr>status := STATUS_ACCEPTED\<rparr>, req)]"
proof -
  have p: "pk (r\<lparr>status := STATUS_ACCEPTED\<rparr>) = i"
    using assms(2) by (simp add: objects_get_pk)
  have "accept req i st = accept_view req i st"
    using assms(1) by (simp add: accept_def gate_open)
  then show ?thesis
    using p assms(2)
    by (simp add: accept_view_found [OF assms(2)] get_absolute_url_def
        objects_get_overwrite overwrite_keeps_pks overwrite_keeps_others)
qed

theorem accept_pending_witness:
  "has_perm (user moderator_request) ''nutrition.add_ingredient''
   \<and> objects_get 1 (db pantry) = Some apple
   \<and> status apple = STATUS_PENDING
   \<and> fst (accept moderator_request 1 pantry) = Inr (HttpResponseRedirect (IngredientUrl 1))
   \<and> db (snd (accept moderator_request 1 pantry))
       = [apple\<lparr>status := STATUS_ACCEPTED\<rparr>, bread, cheese, dates]
   \<and> outbox (snd (accept moderator_request 1 pantry))
       = [(apple\<lparr>status := STATUS_ACCEPTED\<rparr>, moderator_request)]"
proof -
  have h1: "has_perm (user moderator_request) ''nutrition.add_ingredient''"
    by (simp add: moderator_request_def)
  have h2: "objects_get 1 (db pantry) = Some apple"
    by (simp add: objects_get_def pantry_def apple_def)
  have h3: "status apple = STATUS_PENDING"
    by (simp add: apple_def)
  have d: "db (snd (accept moderator_request 1 pantry))
       = [apple\<lparr>status := STATUS_ACCEPTED\<rparr>, bread, cheese, dates]"
    using h1 by (simp add: accept_def permission_required_def accept_view_def
        get_object_or_404_def objects_get_def save_def send_email_def messages_success_def
        pantry_def apple_def bread_def cheese_def dates_def Let_def)
  from accept_pending [OF h1 h2 h3] h1 h2 h3 d show ?thesis
    by (simp add: split_beta get_absolute_url_def pantry_def apple_def)
qed

text \<open>
  Claim C2. For a caller holding the add-ingredient privilege and a stored row whose
  status is pending, \<open>decline\<close> answers with a redirect; afterwards storage holds the
  row with status declined (an update of that row), and the notification sender has not
  been called.
\<close>

theorem decline_pending:
  assumes "has_perm (user req) ''nutrition.add_ingredient''"
    and "objects_get i (db st) = Some r"
    and "status r = STATUS_PENDING"
  shows "case decline req i st of (res, st') \<Rightarrow>
      res = Inr (HttpResponseRedirect (get_absolute_url (r\<lparr>status := STATUS_DECLINED\<rparr>)))
    \<and> objects_get i (db st') = Some (r\<lparr>status := STATUS_DECLINED\<rparr>)
    \<and> queries st' = queries st @ [SelectByPk i, UpdateRow i]
    \<and> outbox st' = outbox st"
proof -
  have p: "pk (r\<lparr>status := STATUS_DECLINED\<rparr>) = i"
    using assms(2) by (simp add: objects_get_pk)
  have "decline req i st = decline_view req i st"
    using assms(1) by (simp add: decline_def gate_open)
  then show ?thesis
    using p assms(2)
    by (simp add: decline_view_found [OF assms(2)] get_absolute_url_def objects_get_overwrite)
qed

theorem decline_pending_witness:
  "has_perm (user moderator_request) ''nutrition.add_ingredient''
   \<and> objects_get 3 (db pantry) = Some cheese
   \<and> status cheese = STATUS_PENDING
   \<and> fst (decline moderator_request 3 pantry) = Inr (HttpResponseRedirect (IngredientUrl 3))
   \<and> objects_get 3 (db (snd (decline moderator_request 3 pantry)))
       = Some (cheese\<lparr>status := STATUS_DECLINED\<rparr>)
   \<and> outbox (snd (decline moderator_request 3 pantry)) = []"
proof -
  have h1: "has_perm (user moderator_request) ''nutrition.add_ingredient''"
    by (simp add: moderator_request_def)
  have h2: "objects_get 3 (db pantry) = Some cheese"
    by (simp add: objects_get_def pantry_def apple_def bread_def cheese_def)
  have h3: "status cheese = STATUS_PENDING"
    by (simp add: cheese_def)
  have o: "outbox pantry = []"
    by (simp add: pantry_def)
  from decline_pending [OF h1 h2 h3] h1 h2 h3 o show ?thesis
    by (simp add: split_beta get_absolute_url_def cheese_def)
qed

text \<open>
  Claim C6. For a caller holding the add-ingredient privilege and an identifier that no
  stored row has, \<open>accept\<close> and \<open>decline\<close> both fail with \<open>Http404\<close>; the only trace
  is the logged read: the table, the calls to the notification sender and everything
  else in the world are as before.
\<close>

theorem moderation_not_found:
  assumes "has_perm (user req) ''nutrition.add_ingredient''"
    and "objects_get i (db st) = None"
  shows "accept req i st = (Inl Http404, st\<lparr>queries := queries st @ [SelectByPk i]\<rparr>)
    \<and> decline req i st = (Inl Http404, st\<lparr>queries := queries st @ [SelectByPk i]\<rparr>)
    \<and> db (snd (accept req i st)) = db st \<and> outbox (snd (accept req i st)) = outbox st
    \<and> db (snd (decline req i st)) = db st \<and> outbox (snd (decline req i st)) = outbox st"
  using assms
  by (simp add: accept_def decline_def gate_open accept_view_missing decline_view_missing)

theorem moderation_not_found_witness:
  "has_perm (user moderator_request) ''nutrition.add_ingredient''
   \<and> objects_get 9 (db pantry) = None
   \<and> fst (accept moderator_request 9 pantry) = Inl Http404
   \<and> fst (decline moderator_request 9 pantry) = Inl Http404
   \<and> db (snd (accept moderator_request 9 pantry)) = [apple, bread, cheese, dates]
   \<and> db (snd (decline moderator_request 9 pantry)) = [apple, bread, cheese, dates]
   \<and> outbox (snd (accept moderator_request 9 pantry)) = []"
proof -
  have h1: "has_perm (user moderator_request) ''nutrition.add_ingredient''"
    by (simp add: moderator_request_def)
  have h2: "objects_get 9 (db pantry) = None"
    by (simp add: objects_get_def pantry_def apple_def bread_def cheese_def dates_def)
  have d: "db pantry = [apple, bread, cheese, dates]" and o: "outbox pantry = []"
    by (simp_all add: pantry_def)
  from moderation_not_found [OF h1 h2] h1 h2 d o show ?thesis
    by simp
qed

text \<open>
  Claim C7. Neither handler looks at the current status. For a caller holding the
  add-ingredient privilege and a stored row in any status, \<open>accept\<close> stores the row as
  accepted and calls the notification sender once more, and \<open>decline\<close> stores the row
  as declined; both answer with a redirect, never with an error.
\<close>

theorem moderation_ignores_current_status:
  assumes "has_perm (user req) ''nutrition.add_ingredient''"
    and "objects_get i (db st) = Some r"
  shows "(case accept req i st of (res, st') \<Rightarrow>
        res = Inr (HttpResponseRedirect (get_absolute_url (r\<lparr>status := STATUS_ACCEPTED\<rparr>)))
      \<and> objects_get i (db st') = Some (r\<lparr>status := STATUS_ACCEPTED\<rparr>)
      \<and> outbox st' = outbox st @ [(r\<lparr>status := STATUS_ACCEPTED\<rparr>, req)])
    \<and> (case decline req i st of (res, st') \<Rightarrow>
        res = Inr (HttpResponseRedirect (get_absolute_url (r\<lparr>status := STATUS_DECLINED\<rparr>)))
      \<and> objects_get i (db st') = Some (r\<lparr>status := STATUS_DECLINED\<rparr>)
      \<and> outbox st' = outbox st)"
proof -
  have pa: "pk (r\<lparr>status := STATUS_ACCEPTED\<rparr>) = i"
    and pd: "pk (r\<lparr>status := STATUS_DECLINED\<rparr>) = i"
    using assms(2) by (simp_all add: objects_get_pk)
  have a: "accept req i st = accept_view req i st"
    using assms(1) by (simp add: accept_def gate_open)
  have d: "decline req i st = decline_view req i st"
    using assms(1) by (simp add: decline_def gate_open)
  show ?thesis
    using pa pd assms(2)
    by (simp add: a d accept_view_found [OF assms(2)] decline_view_found [OF assms(2)]
        get_absolute_url_def objects_get_overwrite)
qed

theorem moderation_ignores_current_status_witness:
  "has_perm (user moderator_request) ''nutrition.add_ingredient''
   \<and> objects_get 2 (db pantry) = Some bread \<and> status bread = STATUS_ACCEPTED
   \<and> objects_get 4 (db pantry) = Some dates \<and> status dates = STATUS_DECLINED
   \<and> objects_get 2 (db (snd (accept moderator_request 2 pantry))) = Some bread
   \<and> outbox (snd (accept moderator_request 2 pantry)) = [(bread, moderator_request)]
   \<and> objects_get 2 (db (snd (decline moderator_request 2 pantry)))
       = Some (bread\<lparr>status := STATUS_DECLINED\<rparr>)
   \<and> objects_get 4 (db (snd (accept moderator_request 4 pantry)))
       = Some (dates\<lparr>status := STATUS_ACCEPTED\<rparr>)
   \<and> outbox (snd (accept moderator_request 4 pantry))
       = [(dates\<lparr>status := STATUS_ACCEPTED\<rparr>, moderator_request)]
   \<and> objects_get 4 (db (snd (decline moderator_request 4 pantry))) = Some dates"
proof -
  have h1: "has_perm (user moderator_request) ''nutrition.add_ingredient''"
    by (simp add: moderator_request_def)
  have h2: "objects_get 2 (db pantry) = Some bread"
    by (simp add: objects_get_def pantry_def apple_def bread_def)
  have h4: "objects_get 4 (db pantry) = Some dates"
    by (simp add: objects_get_def pantry_def apple_def bread_def cheese_def dates_def)
  have s: "bread\<lparr>status := STATUS_ACCEPTED\<rparr> = bread" "dates\<lparr>status := STATUS_DECLINED\<rparr> = dates"
    "status bread = STATUS_ACCEPTED" "status dates = STATUS_DECLINED"
    by (simp_all add: bread_def dates_def)
  have o: "outbox pantry = []"
    by (simp add: pantry_def)
  from moderation_ignores_current_status [OF h1 h2]
    moderation_ignores_current_status [OF h1 h4] h1 h2 h4 s o
  show ?thesis
    by (simp add: split_beta)
qed

text \<open>
  Claim C8. \<open>decline\<close> never deletes. For every stored row and every caller, after
  \<open>decline\<close> storage still holds a row under the same identifier: the row with status
  declined and every other field as before when the caller holds the privilege, the
  row itself otherwise. The identifiers in the table are the same, in the same order,
  and the rows with other identifiers are untouched.
\<close>

theorem decline_keeps_record:
  assumes "objects_get i (db st) = Some r"
  shows "case decline req i st of (res, st') \<Rightarrow>
      objects_get i (db st')
        = Some (if has_perm (user req) ''nutrition.add_ingredient''
                then r\<lparr>status := STATUS_DECLINED\<rparr> else r)
    \<and> map pk (db st') = map pk (db st)
    \<and> filter (\<lambda>x. pk x \<noteq> i) (db st') = filter (\<lambda>x. pk x \<noteq> i) (db st)"
proof (cases "has_perm (user req) ''nutrition.add_ingredient''")
  case True
  have p: "pk (r\<lparr>status := STATUS_DECLINED\<rparr>) = i"
    using assms by (simp add: objects_get_pk)
  have "decline req i st = decline_view req i st"
    using True by (simp add: decline_def gate_open)
  then show ?thesis
    using True p assms
    by (simp add: decline_view_found [OF assms] objects_get_overwrite
        overwrite_keeps_pks overwrite_keeps_others)
next
  case False
  then show ?thesis
    using assms by (simp add: decline_def gate_closed)
qed

theorem decline_keeps_record_witness:
  "objects_get 1 (db pantry) = Some apple
   \<and> db (snd (decline moderator_request 1 pantry))
       = [apple\<lparr>status := STATUS_DECLINED\<rparr>, bread, cheese, dates]
   \<and> objects_get 1 (db (snd (decline moderator_request 1 pantry)))
       = Some (apple\<lparr>status := STATUS_DECLINED\<rparr>)
   \<and> map pk (db (snd (decline moderator_request 1 pantry))) = [1, 2, 3, 4]"
proof -
  have h1: "has_perm (user moderator_request) ''nutrition.add_ingredient''"
    by (simp add: moderator_request_def)
  have h2: "objects_get 1 (db pantry) = Some apple"
    by (simp add: objects_get_def pantry_def apple_def)
  have d: "db (snd (decline moderator_request 1 pantry))
       = [apple\<lparr>status := STATUS_DECLINED\<rparr>, bread, cheese, dates]"
    using h1 by (simp add: decline_def permission_required_def decline_view_def
        get_object_or_404_def objects_get_def save_def messages_success_def
        pantry_def apple_def bread_def cheese_def dates_def Let_def)
  have m: "map pk (db pantry) = [1, 2, 3, 4]"
    by (simp add: pantry_def apple_def bread_def cheese_def dates_def)
  from decline_keeps_record [OF h2, of moderator_request] h1 h2 d m show ?thesis
    by (simp add: split_beta)
qed

end
